theory Spec2Isabelle
  imports Main "HOL-Library.Sublist"
begin

section \<open>The Valgrind run control of Qt Creator\<close>

text \<open>
  A shallow embedding of \<^verbatim>\<open>src/plugins/valgrind/valgrindengine.cpp\<close>: the class
  \<^verbatim>\<open>ValgrindRunControl\<close>, its constructor and its member functions. The object and
  the collaborators it calls (the runner, the progress interface, the message sink, the
  output pane, the signal connections) are one record; every member function takes
  the record and returns the updated one. A dereference of a null \<^verbatim>\<open>m_settings\<close> is a
  fault value.
\<close>

subsection \<open>Enumerations and settings\<close>

text \<open>
  Modelled from the spec: the enum \<^verbatim>\<open>ValgrindBaseSettings::SelfModifyingCodeDetection\<close> is
  declared in \<^verbatim>\<open>valgrindsettings.h\<close>, which is not among the sources. The four enumerators
  are those the source names; \<open>DetectSmcOther n\<close> stands for any other integer the C++
  enum object can hold (the spec's ``unrecognized value'').
\<close>

datatype SelfModifyingCodeDetection =
    DetectSmcNo
  | DetectSmcEverywhere
  | DetectSmcEverywhereButFile
  | DetectSmcStackOnly
  | DetectSmcOther int

text \<open>
  Modelled from the spec: \<^verbatim>\<open>ValgrindBaseSettings\<close> is declared in \<^verbatim>\<open>valgrindsettings.h\<close>;
  the source reads the two accessors below (the spec's settings object exposing the
  executable path and the self-modifying-code detection mode).
\<close>

record ValgrindBaseSettings =
  valgrindExecutable :: string
  selfModifyingCodeDetection :: SelfModifyingCodeDetection

text \<open>
  Modelled from the spec: \<^verbatim>\<open>Utils::OutputFormat\<close> is declared outside the sources; the spec
  speaks of a format tag (normal vs error). The enumerators are those the source names.
\<close>

datatype OutputFormat = NormalMessageFormat | ErrorMessageFormat | DebugFormat

text \<open>The error kinds of \<^verbatim>\<open>QProcess::ProcessError\<close> (Qt).\<close>

datatype ProcessError = FailedToStart | Crashed | Timedout | ReadError | WriteError | UnknownError

text \<open>\<^verbatim>\<open>ApplicationLauncher::Mode\<close>, \<^verbatim>\<open>IOutputPane::Flag\<close> and
  \<^verbatim>\<open>FutureProgress::KeepOnFinishType\<close>, as far as the source names them.\<close>

datatype LaunchMode = Console | Gui

datatype PopupFlag = NoModeSwitch | ModeSwitch | WithFocus | EnsureSizeHint

datatype KeepOnFinishType = HideOnFinish | KeepOnFinishTillUserInteraction | KeepOnFinish

type_synonym Environment = "(string \<times> string) list"

subsection \<open>Strings\<close>

text \<open>
  \<^verbatim>\<open>tr()\<close> looks the source text up in the installed translations and returns the source
  text itself when there is none; the model has no translation installed.
\<close>

definition tr :: "string \<Rightarrow> string" where
  "tr sourceText = sourceText"

text \<open>
  \<^verbatim>\<open>QString::arg\<close>, for the format strings of this file: the place markers are
  \<^verbatim>\<open>%1\<close> to \<^verbatim>\<open>%9\<close>, numbered from 1, and there are as many arguments as markers. The
  format is read once from left to right, so a marker that occurs inside an argument
  is not replaced (as with Qt's multi-argument overload).
\<close>

definition isPlaceMarker :: "char \<Rightarrow> bool" where
  "isPlaceMarker d = (d \<in> set ''123456789'')"

definition markerIndex :: "char \<Rightarrow> nat" where
  "markerIndex d = of_char d - 49"

fun arg :: "string \<Rightarrow> string list \<Rightarrow> string" where
  "arg [] as = []"
| "arg [c] as = [c]"
| "arg (c # d # cs) as =
     (if c = CHR ''%'' \<and> isPlaceMarker d \<and> markerIndex d < length as
      then as ! markerIndex d @ arg cs as
      else c # arg (d # cs) as)"

subsection \<open>Signals, slots and the collaborators\<close>

text \<open>The signals of the runner and of the progress widget that \<^verbatim>\<open>startEngine\<close> connects,
  and the slots of the run control they are connected to.\<close>

datatype signal =
    FutureProgress_canceled
  | FutureProgress_finished
  | ValgrindRunner_processOutputReceived
  | ValgrindRunner_processErrorReceived
  | ValgrindRunner_finished

datatype slot =
    Slot_handleProgressCanceled
  | Slot_handleProgressFinished
  | Slot_receiveProcessOutput
  | Slot_receiveProcessError
  | Slot_runnerFinished

text \<open>The calls made on \<^verbatim>\<open>m_progress\<close> (a \<^verbatim>\<open>QFutureInterface<void>\<close>), in order.\<close>

datatype progress_call = ReportStarted | Cancel | ReportCanceled | ReportFinished

text \<open>The signals the run control itself emits.\<close>

datatype control_signal = Signal_starting | Signal_finished

record TimedTask =
  task_title :: string
  task_type :: string
  task_expectedSeconds :: nat
  task_keepOnFinish :: KeepOnFinishType

text \<open>What the run control has set on its \<^verbatim>\<open>ValgrindRunner\<close>, and how often it has called
  \<^verbatim>\<open>start()\<close> and \<^verbatim>\<open>stop()\<close> on it.\<close>

record ValgrindRunner =
  run_workingDirectory :: string
  run_valgrindExecutable :: string
  run_valgrindArguments :: "string list"
  run_debuggeeExecutable :: string
  run_debuggeeArguments :: string
  run_environment :: Environment
  run_connectionParameters :: string
  run_useStartupProject :: bool
  run_localRunMode :: LaunchMode
  run_startCalls :: nat
  run_stopCalls :: nat

text \<open>Objects of the plugin manager's pool: only whether an object is an
  \<^verbatim>\<open>IOutputPane\<close> matters (\<^verbatim>\<open>qobject_cast\<close>).\<close>

datatype QObject = OutputPaneObject | OtherObject

text \<open>
  The base class part: what \<^verbatim>\<open>AnalyzerRunControl\<close> and the host give the run control
  (the runnable, the working directory, the connection, the virtual functions
  \<^verbatim>\<open>toolArguments()\<close> and \<^verbatim>\<open>progressTitle()\<close> of the subclass, the runner, the object
  pool) and what the run control does to them (messages appended, signals emitted and
  connected, progress tasks, pane popups, alerts, \<^verbatim>\<open>AnalyzerManager::stopTool()\<close> calls).
\<close>

record AnalyzerRunControl =
  runnable_debuggee :: string
  runnable_debuggeeArgs :: string
  workingDirectory :: string
  connection_connParams :: string
  toolArguments :: "string list"
  progressTitle :: string
  runner :: ValgrindRunner
  pluginObjects :: "(string \<times> QObject) list"
  connections :: "(signal \<times> slot) list"
  messages :: "(string \<times> OutputFormat) list"
  emitted :: "control_signal list"
  timedTasks :: "TimedTask list"
  popups :: "PopupFlag list"
  alerts :: "nat list"
  stopToolCalls :: nat

record ValgrindRunControl = AnalyzerRunControl +
  m_settings :: "ValgrindBaseSettings option"
  m_progress :: "progress_call list"
  m_isStopping :: bool
  m_isCustomStart :: bool
  m_localRunMode :: LaunchMode
  m_environment :: Environment

datatype fault = NullSettings

subsection \<open>The sink, the connections and the object pool\<close>

text \<open>\<^verbatim>\<open>RunControl::appendMessage\<close> hands the text and its format to the message sink.\<close>

definition appendMessage :: "string \<Rightarrow> OutputFormat \<Rightarrow> ValgrindRunControl \<Rightarrow> ValgrindRunControl" where
  "appendMessage text format this = this\<lparr>messages := messages this @ [(text, format)]\<rparr>"

text \<open>\<^verbatim>\<open>QObject::connect\<close> adds a connection (a second connect of the same pair adds a
  second one); \<^verbatim>\<open>QObject::disconnect\<close> removes every connection of the pair.\<close>

definition connect :: "signal \<Rightarrow> slot \<Rightarrow> ValgrindRunControl \<Rightarrow> ValgrindRunControl" where
  "connect sig sl this = this\<lparr>connections := connections this @ [(sig, sl)]\<rparr>"

definition disconnect :: "signal \<Rightarrow> slot \<Rightarrow> ValgrindRunControl \<Rightarrow> ValgrindRunControl" where
  "disconnect sig sl this =
     this\<lparr>connections := filter (\<lambda>c. c \<noteq> (sig, sl)) (connections this)\<rparr>"

text \<open>\<^verbatim>\<open>PluginManager::getObjectByName\<close>: the first object of the pool with that name.\<close>

definition getObjectByName :: "string \<Rightarrow> ValgrindRunControl \<Rightarrow> QObject option" where
  "getObjectByName name this = map_of (pluginObjects this) name"

subsection \<open>Constructor\<close>

record IRunConfigurationAspect =
  currentSettings :: "ValgrindBaseSettings option"

record RunConfiguration =
  extraAspect :: "IRunConfigurationAspect option"

text \<open>
  The constructor. \<open>base\<close> is the base class part as \<^verbatim>\<open>AnalyzerRunControl\<close>'s constructor
  leaves it; \<open>extraAspect\<close> is the aspect of id \<^verbatim>\<open>ANALYZER_VALGRIND_SETTINGS\<close>, whose
  \<open>currentSettings\<close> is \<open>None\<close> when the \<^verbatim>\<open>qobject_cast\<close> gives 0; \<open>globalSettings\<close> is
  what \<^verbatim>\<open>ValgrindPlugin::globalSettings()\<close> returns.
\<close>

definition ValgrindRunControl ::
  "AnalyzerRunControl \<Rightarrow> RunConfiguration option \<Rightarrow> ValgrindBaseSettings option \<Rightarrow> ValgrindRunControl" where
  "ValgrindRunControl base runConfiguration globalSettings =
     (let this = AnalyzerRunControl.extend base
            \<lparr>m_settings = None, m_progress = [], m_isStopping = False,
             m_isCustomStart = False, m_localRunMode = Gui, m_environment = []\<rparr>;
          this = (case runConfiguration of
                    None \<Rightarrow> this
                  | Some rc \<Rightarrow>
                      (case extraAspect rc of
                         None \<Rightarrow> this
                       | Some aspect \<Rightarrow> this\<lparr>m_settings := currentSettings aspect\<rparr>))
      in if m_settings this = None then this\<lparr>m_settings := globalSettings\<rparr> else this)"

subsection \<open>genericToolArguments\<close>

definition genericToolArguments :: "ValgrindRunControl \<Rightarrow> string list" where
  "genericToolArguments this =
     (case m_settings this of
        None \<Rightarrow> []
      | Some settings \<Rightarrow>
          (let smcCheckValue =
             (case selfModifyingCodeDetection settings of
                DetectSmcNo \<Rightarrow> ''none''
              | DetectSmcEverywhere \<Rightarrow> ''all''
              | DetectSmcEverywhereButFile \<Rightarrow> ''all-non-file''
              | DetectSmcStackOnly \<Rightarrow> ''stack''
              | _ \<Rightarrow> ''stack'')
           in [''--smc-check='' @ smcCheckValue]))"

subsection \<open>startEngine and stopEngine\<close>

text \<open>
  \<open>runStarts\<close> is what \<^verbatim>\<open>run->start()\<close> returns. The task that
  \<^verbatim>\<open>ProgressManager::addTimedTask\<close> creates is recorded with the \<^verbatim>\<open>HideOnFinish\<close> that
  the next statement sets on it. The block under \<^verbatim>\<open>VALGRIND_DEBUG_OUTPUT\<close> is compiled
  out (the macro is 0).
\<close>

definition startEngine :: "bool \<Rightarrow> ValgrindRunControl \<Rightarrow> fault + (bool \<times> ValgrindRunControl)" where
  "startEngine runStarts this =
     (let this = this\<lparr>emitted := emitted this @ [Signal_starting]\<rparr>;
          this = this\<lparr>timedTasks := timedTasks this @
                   [\<lparr>task_title = progressTitle this, task_type = ''valgrind'',
                     task_expectedSeconds = 100, task_keepOnFinish = HideOnFinish\<rparr>]\<rparr>;
          this = connect FutureProgress_canceled Slot_handleProgressCanceled this;
          this = connect FutureProgress_finished Slot_handleProgressFinished this;
          this = this\<lparr>m_progress := m_progress this @ [ReportStarted]\<rparr>
      in case m_settings this of
           None \<Rightarrow> Inl NullSettings
         | Some settings \<Rightarrow>
             (let run = runner this;
                  run = run\<lparr>run_workingDirectory := workingDirectory this\<rparr>;
                  run = run\<lparr>run_valgrindExecutable := valgrindExecutable settings\<rparr>;
                  run = run\<lparr>run_valgrindArguments := genericToolArguments this @ toolArguments this\<rparr>;
                  run = run\<lparr>run_debuggeeExecutable := runnable_debuggee this\<rparr>;
                  run = run\<lparr>run_debuggeeArguments := runnable_debuggeeArgs this\<rparr>;
                  run = run\<lparr>run_environment := m_environment this\<rparr>;
                  run = run\<lparr>run_connectionParameters := connection_connParams this\<rparr>;
                  run = run\<lparr>run_useStartupProject := (\<not> m_isCustomStart this)\<rparr>;
                  run = run\<lparr>run_localRunMode := m_localRunMode this\<rparr>;
                  this = this\<lparr>runner := run\<rparr>;
                  this = connect ValgrindRunner_processOutputReceived Slot_receiveProcessOutput this;
                  this = connect ValgrindRunner_processErrorReceived Slot_receiveProcessError this;
                  this = connect ValgrindRunner_finished Slot_runnerFinished this;
                  this = this\<lparr>runner := (runner this)\<lparr>run_startCalls := Suc (run_startCalls (runner this))\<rparr>\<rparr>
              in if \<not> runStarts
                 then Inr (False, this\<lparr>m_progress := m_progress this @ [Cancel]\<rparr>)
                 else Inr (True, this)))"

definition stopEngine :: "ValgrindRunControl \<Rightarrow> ValgrindRunControl" where
  "stopEngine this =
     (let this = this\<lparr>m_isStopping := True\<rparr>
      in this\<lparr>runner := (runner this)\<lparr>run_stopCalls := Suc (run_stopCalls (runner this))\<rparr>\<rparr>)"

subsection \<open>Accessors and setters\<close>

definition executable :: "ValgrindRunControl \<Rightarrow> string" where
  "executable this = runnable_debuggee this"

definition setEnvironment :: "Environment \<Rightarrow> ValgrindRunControl \<Rightarrow> ValgrindRunControl" where
  "setEnvironment environment this = this\<lparr>m_environment := environment\<rparr>"

definition setLocalRunMode :: "LaunchMode \<Rightarrow> ValgrindRunControl \<Rightarrow> ValgrindRunControl" where
  "setLocalRunMode localRunMode this = this\<lparr>m_localRunMode := localRunMode\<rparr>"

subsection \<open>The slots\<close>

definition handleProgressCanceled :: "ValgrindRunControl \<Rightarrow> ValgrindRunControl" where
  "handleProgressCanceled this =
     (let this = this\<lparr>stopToolCalls := Suc (stopToolCalls this)\<rparr>;
          this = this\<lparr>m_progress := m_progress this @ [ReportCanceled]\<rparr>
      in this\<lparr>m_progress := m_progress this @ [ReportFinished]\<rparr>)"

definition handleProgressFinished :: "ValgrindRunControl \<Rightarrow> ValgrindRunControl" where
  "handleProgressFinished this = this\<lparr>alerts := alerts this @ [3000]\<rparr>"

definition runnerFinished :: "ValgrindRunControl \<Rightarrow> ValgrindRunControl" where
  \<open>runnerFinished this =
     (let this = appendMessage (tr ''Analyzing finished.'' @ ''\<newline>'') NormalMessageFormat this;
          this = this\<lparr>emitted := emitted this @ [Signal_finished]\<rparr>;
          this = this\<lparr>m_progress := m_progress this @ [ReportFinished]\<rparr>;
          this = disconnect ValgrindRunner_processOutputReceived Slot_receiveProcessOutput this
      in disconnect ValgrindRunner_finished Slot_runnerFinished this)\<close>

definition receiveProcessOutput :: "string \<Rightarrow> OutputFormat \<Rightarrow> ValgrindRunControl \<Rightarrow> ValgrindRunControl" where
  "receiveProcessOutput output format this = appendMessage output format this"

definition receiveProcessError :: "string \<Rightarrow> ProcessError \<Rightarrow> ValgrindRunControl \<Rightarrow> fault + ValgrindRunControl" where
  \<open>receiveProcessError message error this =
     (case
        (if error = FailedToStart then
           (case m_settings this of
              None \<Rightarrow> Inl NullSettings
            | Some settings \<Rightarrow>
                (let valgrind = valgrindExecutable settings
                 in if valgrind \<noteq> []
                    then Inr (appendMessage
                           (arg (tr ''Error: "%1" could not be started: %2'') [valgrind, message] @ ''\<newline>'')
                           ErrorMessageFormat this)
                    else Inr (appendMessage
                           (tr ''Error: no Valgrind executable set.'' @ ''\<newline>'')
                           ErrorMessageFormat this)))
         else if m_isStopping this \<and> error = Crashed then
           Inr (appendMessage (tr ''Process terminated.'' @ ''\<newline>'') ErrorMessageFormat this)
         else
           Inr (appendMessage (arg ''** %1 **\<newline>'' [message]) ErrorMessageFormat this))
      of
        Inl f \<Rightarrow> Inl f
      | Inr this \<Rightarrow>
          (if m_isStopping this then Inr this
           else (case getObjectByName ''AppOutputPane'' this of
                   Some OutputPaneObject \<Rightarrow> Inr (this\<lparr>popups := popups this @ [NoModeSwitch]\<rparr>)
                 | _ \<Rightarrow> Inr this)))\<close>

subsection \<open>Signal delivery and sequences of operations\<close>

text \<open>
  What the runner and the progress widget emit. Qt calls the slots connected to the
  signal in the order of connection, each with the signal's arguments (a slot may take
  fewer), and skips a connection that a slot called earlier has removed.
\<close>

datatype emission =
    Emit_canceled
  | Emit_progressFinished
  | Emit_processOutputReceived string OutputFormat
  | Emit_processErrorReceived string ProcessError
  | Emit_finished

fun signal_of :: "emission \<Rightarrow> signal" where
  "signal_of Emit_canceled = FutureProgress_canceled"
| "signal_of Emit_progressFinished = FutureProgress_finished"
| "signal_of (Emit_processOutputReceived output format) = ValgrindRunner_processOutputReceived"
| "signal_of (Emit_processErrorReceived message error) = ValgrindRunner_processErrorReceived"
| "signal_of Emit_finished = ValgrindRunner_finished"

text \<open>A slot whose parameters the signal does not supply cannot be connected to it
  (the connect does not compile); the model leaves the state as it is.\<close>

fun invoke :: "slot \<Rightarrow> emission \<Rightarrow> ValgrindRunControl \<Rightarrow> fault + ValgrindRunControl" where
  "invoke Slot_handleProgressCanceled e this = Inr (handleProgressCanceled this)"
| "invoke Slot_handleProgressFinished e this = Inr (handleProgressFinished this)"
| "invoke Slot_runnerFinished e this = Inr (runnerFinished this)"
| "invoke Slot_receiveProcessOutput (Emit_processOutputReceived output format) this =
     Inr (receiveProcessOutput output format this)"
| "invoke Slot_receiveProcessError (Emit_processErrorReceived message error) this =
     receiveProcessError message error this"
| "invoke sl e this = Inr this"

fun deliver :: "(signal \<times> slot) list \<Rightarrow> emission \<Rightarrow> ValgrindRunControl \<Rightarrow> fault + ValgrindRunControl" where
  "deliver [] e this = Inr this"
| "deliver (c # cs) e this =
     (if c \<in> set (connections this)
      then (case invoke (snd c) e this of
              Inl f \<Rightarrow> Inl f
            | Inr this' \<Rightarrow> deliver cs e this')
      else deliver cs e this)"

definition emit :: "emission \<Rightarrow> ValgrindRunControl \<Rightarrow> fault + ValgrindRunControl" where
  "emit e this = deliver (filter (\<lambda>c. fst c = signal_of e) (connections this)) e this"

text \<open>The operations on a run control: calls of its member functions that change it,
  and signals delivered to it.\<close>

datatype operation =
    Call_startEngine bool
  | Call_stopEngine
  | Call_setEnvironment Environment
  | Call_setLocalRunMode LaunchMode
  | Call_handleProgressCanceled
  | Call_handleProgressFinished
  | Call_runnerFinished
  | Call_receiveProcessOutput string OutputFormat
  | Call_receiveProcessError string ProcessError
  | Signal emission

fun exec :: "operation \<Rightarrow> ValgrindRunControl \<Rightarrow> fault + ValgrindRunControl" where
  "exec (Call_startEngine runStarts) this = map_sum id snd (startEngine runStarts this)"
| "exec Call_stopEngine this = Inr (stopEngine this)"
| "exec (Call_setEnvironment environment) this = Inr (setEnvironment environment this)"
| "exec (Call_setLocalRunMode localRunMode) this = Inr (setLocalRunMode localRunMode this)"
| "exec Call_handleProgressCanceled this = Inr (handleProgressCanceled this)"
| "exec Call_handleProgressFinished this = Inr (handleProgressFinished this)"
| "exec Call_runnerFinished this = Inr (runnerFinished this)"
| "exec (Call_receiveProcessOutput output format) this = Inr (receiveProcessOutput output format this)"
| "exec (Call_receiveProcessError message error) this = receiveProcessError message error this"
| "exec (Signal e) this = emit e this"

fun run :: "operation list \<Rightarrow> ValgrindRunControl \<Rightarrow> fault + ValgrindRunControl" where
  "run [] this = Inr this"
| "run (call # calls) this =
     (case exec call this of
        Inl f \<Rightarrow> Inl f
      | Inr this' \<Rightarrow> run calls this')"

subsection \<open>Observations and an example session\<close>

text \<open>What an operation that may fault leaves in the message sink, in the list of pane
  popups and in the calls on \<^verbatim>\<open>m_progress\<close>; what \<open>startEngine\<close> returns and the run
  control it leaves; the messages that an operation has added to those of \<open>before\<close>.\<close>

definition messagesAfter :: "fault + ValgrindRunControl \<Rightarrow> fault + (string \<times> OutputFormat) list" where
  "messagesAfter result = map_sum id messages result"

definition popupsAfter :: "fault + ValgrindRunControl \<Rightarrow> fault + PopupFlag list" where
  "popupsAfter result = map_sum id popups result"

definition progressAfter :: "fault + ValgrindRunControl \<Rightarrow> fault + progress_call list" where
  "progressAfter result = map_sum id m_progress result"

definition returned :: "fault + (bool \<times> ValgrindRunControl) \<Rightarrow> fault + bool" where
  "returned result = map_sum id fst result"

definition controlAfter :: "fault + (bool \<times> ValgrindRunControl) \<Rightarrow> fault + ValgrindRunControl" where
  "controlAfter result = map_sum id snd result"

definition appendedMessages ::
  "ValgrindRunControl \<Rightarrow> fault + ValgrindRunControl \<Rightarrow> fault + (string \<times> OutputFormat) list" where
  "appendedMessages before result =
     map_sum id (\<lambda>after. drop (length (messages before)) (messages after)) result"

text \<open>A session for the concrete instances: a Valgrind executable is configured, the
  output pane is registered, nothing has happened yet.\<close>

definition exampleSettings :: ValgrindBaseSettings where
  "exampleSettings =
     \<lparr>valgrindExecutable = ''valgrind'', selfModifyingCodeDetection = DetectSmcStackOnly\<rparr>"

definition exampleRunner :: ValgrindRunner where
  "exampleRunner =
     \<lparr>run_workingDirectory = [], run_valgrindExecutable = [], run_valgrindArguments = [],
      run_debuggeeExecutable = [], run_debuggeeArguments = [], run_environment = [],
      run_connectionParameters = [], run_useStartupProject = False, run_localRunMode = Gui,
      run_startCalls = 0, run_stopCalls = 0\<rparr>"

definition exampleBase :: AnalyzerRunControl where
  "exampleBase =
     \<lparr>runnable_debuggee = ''a.out'', runnable_debuggeeArgs = [], workingDirectory = ''/tmp'',
      connection_connParams = [], toolArguments = [''--tool=memcheck''],
      progressTitle = ''Analyzing Memory'', runner = exampleRunner,
      pluginObjects = [(''AppOutputPane'', OutputPaneObject)], connections = [],
      messages = [], emitted = [], timedTasks = [], popups = [], alerts = [],
      stopToolCalls = 0\<rparr>"

definition exampleControl :: ValgrindRunControl where
  "exampleControl = ValgrindRunControl exampleBase None (Some exampleSettings)"

section \<open>Properties\<close>

subsection \<open>What the format strings expand to\<close>

lemma arg_generic:
  "arg ''** %1 **\<newline>'' [message] = ''** '' @ message @ '' **\<newline>''"
  by (simp add: isPlaceMarker_def markerIndex_def)

lemma arg_could_not_be_started:
  \<open>arg ''Error: "%1" could not be started: %2'' [valgrind, message]
     = ''Error: "'' @ valgrind @ ''" could not be started: '' @ message\<close>
  by (simp add: isPlaceMarker_def markerIndex_def)

subsection \<open>The outcomes of receiveProcessError\<close>

lemma receiveProcessError_FailedToStart:
  \<open>m_settings this = Some settings \<Longrightarrow>
   messagesAfter (receiveProcessError message FailedToStart this) =
     Inr (messages this @
       [(if valgrindExecutable settings = [] then ''Error: no Valgrind executable set.\<newline>''
         else ''Error: "'' @ valgrindExecutable settings @ ''" could not be started: '' @ message @ ''\<newline>'',
         ErrorMessageFormat)])\<close>
  by (simp add: receiveProcessError_def messagesAfter_def appendMessage_def getObjectByName_def
        tr_def isPlaceMarker_def markerIndex_def Let_def split: option.split QObject.split)

lemma receiveProcessError_stopping_Crashed:
  "m_isStopping this \<Longrightarrow>
   receiveProcessError message Crashed this =
     Inr (appendMessage ''Process terminated.\<newline>'' ErrorMessageFormat this)"
  by (simp add: receiveProcessError_def appendMessage_def tr_def)

lemma receiveProcessError_generic:
  "error \<noteq> FailedToStart \<Longrightarrow> \<not> (m_isStopping this \<and> error = Crashed) \<Longrightarrow>
   messagesAfter (receiveProcessError message error this) =
     Inr (messages this @ [(''** '' @ message @ '' **\<newline>'', ErrorMessageFormat)])"
  by (simp add: receiveProcessError_def messagesAfter_def appendMessage_def getObjectByName_def
        isPlaceMarker_def markerIndex_def split: option.split QObject.split)

lemma receiveProcessError_popups:
  "receiveProcessError message error this = Inr this' \<Longrightarrow>
   popups this' =
     (if \<not> m_isStopping this \<and> getObjectByName ''AppOutputPane'' this = Some OutputPaneObject
      then popups this @ [NoModeSwitch] else popups this)"
  unfolding receiveProcessError_def appendMessage_def getObjectByName_def Let_def
  by (auto split: if_splits option.splits QObject.splits sum.splits)

lemma receiveProcessError_format:
  "receiveProcessError message error this = Inr this' \<Longrightarrow>
   \<exists>text. messages this' = messages this @ [(text, ErrorMessageFormat)]"
  unfolding receiveProcessError_def appendMessage_def getObjectByName_def Let_def
  by (auto split: if_splits option.splits QObject.splits sum.splits)

subsection \<open>The example session and stopEngine, field by field\<close>

lemma exampleControl_fields:
  "m_isStopping exampleControl = False"
  "m_settings exampleControl = Some exampleSettings"
  "messages exampleControl = []"
  "popups exampleControl = []"
  "m_progress exampleControl = []"
  "connections exampleControl = []"
  "pluginObjects exampleControl = [(''AppOutputPane'', OutputPaneObject)]"
  by (simp_all add: exampleControl_def ValgrindRunControl_def exampleBase_def
        AnalyzerRunControl.defs Let_def)

lemma stopEngine_fields:
  "m_isStopping (stopEngine this) = True"
  "m_settings (stopEngine this) = m_settings this"
  "messages (stopEngine this) = messages this"
  "popups (stopEngine this) = popups this"
  "m_progress (stopEngine this) = m_progress this"
  "connections (stopEngine this) = connections this"
  "pluginObjects (stopEngine this) = pluginObjects this"
  by (simp_all add: stopEngine_def Let_def)

subsection \<open>The stopping flag through every operation\<close>

lemma m_isStopping_receiveProcessError:
  "receiveProcessError message error this = Inr this' \<Longrightarrow> m_isStopping this' = m_isStopping this"
  unfolding receiveProcessError_def appendMessage_def getObjectByName_def Let_def
  by (auto split: if_splits option.splits QObject.splits sum.splits)



lemma startEngine_None:
  "m_settings this = None \<Longrightarrow> startEngine runStarts this = Inl NullSettings"
  by (simp add: startEngine_def connect_def Let_def)



lemma startEngine_returned:
  "m_settings this = Some settings \<Longrightarrow> returned (startEngine runStarts this) = Inr runStarts"
  by (simp add: startEngine_def connect_def returned_def Let_def)



lemma m_isStopping_startEngine:
  "startEngine runStarts this = Inr (started, this') \<Longrightarrow> m_isStopping this' = m_isStopping this"
proof (cases "m_settings this")
  case None
  assume "startEngine runStarts this = Inr (started, this')"
  with startEngine_None [OF None] show ?thesis by simp
next
  case (Some settings)
  assume "startEngine runStarts this = Inr (started, this')"
  then have "this' = snd (projr (startEngine runStarts this))" by simp
  then show ?thesis using Some by (simp add: startEngine_def connect_def Let_def)
qed



lemma m_isStopping_runnerFinished: "m_isStopping (runnerFinished this) = m_isStopping this"
  by (simp add: runnerFinished_def appendMessage_def disconnect_def)




lemma m_isStopping_slots:
  "m_isStopping (handleProgressCanceled this) = m_isStopping this"
  "m_isStopping (handleProgressFinished this) = m_isStopping this"
  "m_isStopping (receiveProcessOutput output format this) = m_isStopping this"
  "m_isStopping (setEnvironment environment this) = m_isStopping this"
  "m_isStopping (setLocalRunMode localRunMode this) = m_isStopping this"
  by (simp_all add: handleProgressCanceled_def handleProgressFinished_def receiveProcessOutput_def
        appendMessage_def setEnvironment_def setLocalRunMode_def Let_def)


lemma m_isStopping_invoke:
  "invoke sl e this = Inr this' \<Longrightarrow> m_isStopping this' = m_isStopping this"
proof (cases sl)
  case Slot_receiveProcessOutput
  assume "invoke sl e this = Inr this'"
  with Slot_receiveProcessOutput show ?thesis
    by (cases e) (auto simp: m_isStopping_slots)
next
  case Slot_receiveProcessError
  assume "invoke sl e this = Inr this'"
  with Slot_receiveProcessError show ?thesis
    by (cases e) (auto simp: m_isStopping_receiveProcessError)
qed (auto simp: m_isStopping_slots m_isStopping_runnerFinished)



lemma m_isStopping_deliver:
  "deliver cs e this = Inr this' \<Longrightarrow> m_isStopping this' = m_isStopping this"
proof (induction cs arbitrary: this)
  case Nil
  then show ?case by simp
next
  case (Cons c cs)
  show ?case
  proof (cases "c \<in> set (connections this)")
    case True
    with Cons.prems obtain mid where mid: "invoke (snd c) e this = Inr mid" and rest: "deliver cs e mid = Inr this'"
      by (cases "invoke (snd c) e this") simp_all
    from Cons.IH [OF rest] m_isStopping_invoke [OF mid] show ?thesis by simp
  next
    case False
    with Cons.prems have "deliver cs e this = Inr this'" by simp
    then show ?thesis by (rule Cons.IH)
  qed
qed

lemma exec_startEngine_Inr:
  assumes "exec (Call_startEngine runStarts) this = Inr this'"
  shows "startEngine runStarts this = Inr (fst (projr (startEngine runStarts this)), this')"
proof (cases "startEngine runStarts this")
  case (Inl f)
  with assms show ?thesis by simp
next
  case (Inr b)
  with assms have "snd b = this'" by simp
  with Inr show ?thesis by (simp add: prod_eq_iff)
qed

lemma m_isStopping_stopEngine: "m_isStopping (stopEngine this)"
  by (simp add: stopEngine_def Let_def)

lemma m_isStopping_exec:
  assumes "exec call this = Inr this'"
  shows "m_isStopping this' = (m_isStopping this \<or> call = Call_stopEngine)"
proof (cases call)
  case (Call_startEngine runStarts)
  with assms have "exec (Call_startEngine runStarts) this = Inr this'" by simp
  from m_isStopping_startEngine [OF exec_startEngine_Inr [OF this]] Call_startEngine
  show ?thesis by simp
next
  case Call_stopEngine
  with assms have "this' = stopEngine this" by simp
  with Call_stopEngine show ?thesis by (simp add: m_isStopping_stopEngine)
next
  case (Call_setEnvironment environment)
  with assms have "this' = setEnvironment environment this" by simp
  with Call_setEnvironment show ?thesis by (simp add: m_isStopping_slots)
next
  case (Call_setLocalRunMode localRunMode)
  with assms have "this' = setLocalRunMode localRunMode this" by simp
  with Call_setLocalRunMode show ?thesis by (simp add: m_isStopping_slots)
next
  case Call_handleProgressCanceled
  with assms have "this' = handleProgressCanceled this" by simp
  with Call_handleProgressCanceled show ?thesis by (simp add: m_isStopping_slots)
next
  case Call_handleProgressFinished
  with assms have "this' = handleProgressFinished this" by simp
  with Call_handleProgressFinished show ?thesis by (simp add: m_isStopping_slots)
next
  case Call_runnerFinished
  with assms have "this' = runnerFinished this" by simp
  with Call_runnerFinished show ?thesis by (simp add: m_isStopping_runnerFinished)
next
  case (Call_receiveProcessOutput out fmt)
  with assms have "this' = receiveProcessOutput out fmt this" by simp
  with Call_receiveProcessOutput show ?thesis by (simp add: m_isStopping_slots)
next
  case (Call_receiveProcessError message error)
  with assms have "receiveProcessError message error this = Inr this'" by simp
  from m_isStopping_receiveProcessError [OF this] Call_receiveProcessError
  show ?thesis by simp
next
  case (Signal e)
  with assms have "deliver (filter (\<lambda>c. fst c = signal_of e) (connections this)) e this = Inr this'"
    by (simp add: emit_def)
  from m_isStopping_deliver [OF this] Signal show ?thesis by simp
qed

lemma m_isStopping_run:
  "run calls this = Inr this' \<Longrightarrow> m_isStopping this' = (m_isStopping this \<or> Call_stopEngine \<in> set calls)"
proof (induction calls arbitrary: this)
  case Nil
  then show ?case by simp
next
  case (Cons call calls)
  show ?case
  proof (cases "exec call this")
    case (Inl f)
    with Cons.prems show ?thesis by simp
  next
    case (Inr mid)
    with Cons.prems have rest: "run calls mid = Inr this'" by simp
    from Cons.IH [OF rest] m_isStopping_exec [OF Inr] show ?thesis by auto
  qed
qed

lemma receiveProcessOutput_fields:
  "m_isStopping (receiveProcessOutput out fmt this) = m_isStopping this"
  "messages (receiveProcessOutput out fmt this) = messages this @ [(out, fmt)]"
  "popups (receiveProcessOutput out fmt this) = popups this"
  "pluginObjects (receiveProcessOutput out fmt this) = pluginObjects this"
  by (simp_all add: receiveProcessOutput_def appendMessage_def)

lemma startEngine_progress:
  "m_settings this = Some settings \<Longrightarrow>
   progressAfter (controlAfter (startEngine runStarts this)) =
     Inr (if runStarts then m_progress this @ [ReportStarted]
          else m_progress this @ [ReportStarted, Cancel])"
  by (simp add: startEngine_def connect_def progressAfter_def controlAfter_def Let_def)

lemma m_isStopping_ValgrindRunControl:
  "m_isStopping (ValgrindRunControl base runConfiguration globalSettings) = False"
  by (simp add: ValgrindRunControl_def AnalyzerRunControl.defs Let_def
        split: option.split)

subsection \<open>Delivery of the finished signal\<close>

lemma startEngine_Some:
  "m_settings this = Some settings \<Longrightarrow>
   startEngine runStarts this = Inr (runStarts, snd (projr (startEngine runStarts this)))"
  by (simp add: startEngine_def connect_def Let_def)

lemma startEngine_fields:
  assumes "m_settings this = Some settings"
  shows "connections (snd (projr (startEngine runStarts this))) =
           connections this @
             [(FutureProgress_canceled, Slot_handleProgressCanceled),
              (FutureProgress_finished, Slot_handleProgressFinished),
              (ValgrindRunner_processOutputReceived, Slot_receiveProcessOutput),
              (ValgrindRunner_processErrorReceived, Slot_receiveProcessError),
              (ValgrindRunner_finished, Slot_runnerFinished)]"
    and "messages (snd (projr (startEngine runStarts this))) = messages this"
    and "m_progress (snd (projr (startEngine True this))) = m_progress this @ [ReportStarted]"
    and "m_settings (snd (projr (startEngine runStarts this))) = m_settings this"
  using assms by (simp_all add: startEngine_def connect_def Let_def)

lemma runnerFinished_fields:
  "messages (runnerFinished this) = messages this @ [(''Analyzing finished.\<newline>'', NormalMessageFormat)]"
  "m_progress (runnerFinished this) = m_progress this @ [ReportFinished]"
  "connections (runnerFinished this) =
     filter (\<lambda>c. c \<noteq> (ValgrindRunner_processOutputReceived, Slot_receiveProcessOutput)
                \<and> c \<noteq> (ValgrindRunner_finished, Slot_runnerFinished)) (connections this)"
  "m_settings (runnerFinished this) = m_settings this"
  "popups (runnerFinished this) = popups this"
  "pluginObjects (runnerFinished this) = pluginObjects this"
  by (simp_all add: runnerFinished_def appendMessage_def disconnect_def tr_def Let_def conj_commute)

lemma deliver_disconnected:
  "\<forall>c \<in> set cs. c \<notin> set (connections this) \<Longrightarrow> deliver cs e this = Inr this"
  by (induction cs) simp_all

lemma deliver_replicate_runnerFinished:
  assumes "(ValgrindRunner_finished, Slot_runnerFinished) \<in> set (connections this)"
  shows "deliver (replicate (Suc n) (ValgrindRunner_finished, Slot_runnerFinished)) e this
           = Inr (runnerFinished this)"
proof -
  have "\<forall>c \<in> set (replicate n (ValgrindRunner_finished, Slot_runnerFinished)).
          c \<notin> set (connections (runnerFinished this))"
    by (simp add: runnerFinished_fields)
  from deliver_disconnected [OF this]
  have "deliver (replicate n (ValgrindRunner_finished, Slot_runnerFinished)) e (runnerFinished this)
          = Inr (runnerFinished this)" .
  with assms show ?thesis by simp
qed

lemma filter_all_equal:
  "set (filter P xs) \<subseteq> {p} \<Longrightarrow> filter P xs = replicate (length (filter P xs)) p"
  by (induction xs) (auto split: if_splits)


lemma emit_finished_first:
  assumes "set (filter (\<lambda>c. fst c = ValgrindRunner_finished) (connections this))
             = {(ValgrindRunner_finished, Slot_runnerFinished)}"
  shows "emit Emit_finished this = Inr (runnerFinished this)"
proof -
  let ?p = "(ValgrindRunner_finished, Slot_runnerFinished)"
  let ?L = "filter (\<lambda>c. fst c = ValgrindRunner_finished) (connections this)"
  from assms have "?p \<in> set ?L" by simp
  then have connected: "?p \<in> set (connections this)" by simp
  from assms have "set ?L \<subseteq> {?p}" by simp
  then have eq: "?L = replicate (length ?L) ?p" by (rule filter_all_equal)
  have "?L \<noteq> []"
  proof
    assume "?L = []"
    then have "set ?L = {}" by (simp only: list.set)
    with assms show False by (simp only: insert_not_empty [symmetric])
  qed
  then obtain n where n: "length ?L = Suc n" by (cases ?L) simp_all
  from eq n have "?L = replicate (Suc n) ?p" by simp
  then have "emit Emit_finished this = deliver (replicate (Suc n) ?p) Emit_finished this"
    by (simp add: emit_def)
  with deliver_replicate_runnerFinished [OF connected] show ?thesis by simp
qed

lemma emit_finished_second:
  assumes "set (filter (\<lambda>c. fst c = ValgrindRunner_finished) (connections this))
             \<subseteq> {(ValgrindRunner_finished, Slot_runnerFinished)}"
  shows "emit Emit_finished (runnerFinished this) = Inr (runnerFinished this)"
proof -
  have "filter (\<lambda>c. fst c = ValgrindRunner_finished) (connections (runnerFinished this)) = []"
    using assms by (auto simp: runnerFinished_fields filter_empty_conv)
  then show ?thesis by (simp add: emit_def)
qed


lemma exampleControl_started:
  "map_sum id snd (startEngine True exampleControl) = Inr (snd (projr (startEngine True exampleControl)))"
  "emit Emit_finished (snd (projr (startEngine True exampleControl)))
     = Inr (runnerFinished (snd (projr (startEngine True exampleControl))))"
proof -
  from startEngine_Some [of exampleControl exampleSettings True]
  have "startEngine True exampleControl = Inr (True, snd (projr (startEngine True exampleControl)))"
    by (simp add: exampleControl_fields)
  then have "map_sum id snd (startEngine True exampleControl)
               = map_sum id snd (Inr (True, snd (projr (startEngine True exampleControl))))"
    by (rule arg_cong)
  then show "map_sum id snd (startEngine True exampleControl)
               = Inr (snd (projr (startEngine True exampleControl)))"
    by simp
  have "set (filter (\<lambda>c. fst c = ValgrindRunner_finished)
          (connections (snd (projr (startEngine True exampleControl)))))
     = {(ValgrindRunner_finished, Slot_runnerFinished)}"
    by (simp add: startEngine_fields [of exampleControl exampleSettings] exampleControl_fields)
  then show "emit Emit_finished (snd (projr (startEngine True exampleControl)))
     = Inr (runnerFinished (snd (projr (startEngine True exampleControl))))"
    by (rule emit_finished_first)
qed

subsection \<open>Delivery of the error signal\<close>

lemma receiveProcessError_appended:
  \<open>appendedMessages this (receiveProcessError message error this) =
     (if error = FailedToStart then
        (case m_settings this of
           None \<Rightarrow> Inl NullSettings
         | Some settings \<Rightarrow>
             Inr [(if valgrindExecutable settings = [] then ''Error: no Valgrind executable set.\<newline>''
                   else ''Error: "'' @ valgrindExecutable settings @ ''" could not be started: '' @ message @ ''\<newline>'',
                   ErrorMessageFormat)])
      else if m_isStopping this \<and> error = Crashed then
        Inr [(''Process terminated.\<newline>'', ErrorMessageFormat)]
      else Inr [(''** '' @ message @ '' **\<newline>'', ErrorMessageFormat)])\<close>
  by (simp add: receiveProcessError_def appendedMessages_def appendMessage_def getObjectByName_def
        tr_def isPlaceMarker_def markerIndex_def Let_def split: option.split QObject.split)

lemma emit_processError_once:
  assumes "filter (\<lambda>c. fst c = ValgrindRunner_processErrorReceived) (connections this)
             = [(ValgrindRunner_processErrorReceived, Slot_receiveProcessError)]"
  shows "emit (Emit_processErrorReceived message error) this = receiveProcessError message error this"
proof -
  let ?p = "(ValgrindRunner_processErrorReceived, Slot_receiveProcessError)"
  have "?p \<in> set (filter (\<lambda>c. fst c = ValgrindRunner_processErrorReceived) (connections this))"
    by (simp only: assms list.set insertI1)
  then have "?p \<in> set (connections this)" by simp
  then have "deliver [?p] (Emit_processErrorReceived message error) this
               = receiveProcessError message error this"
    by (cases "receiveProcessError message error this") simp_all
  with assms show ?thesis by (simp add: emit_def)
qed

lemma runnerFinished_keeps_error_connections:
  "filter (\<lambda>c. fst c = ValgrindRunner_processErrorReceived) (connections (runnerFinished this))
     = filter (\<lambda>c. fst c = ValgrindRunner_processErrorReceived) (connections this)"
proof -
  have "\<And>c. (fst c = ValgrindRunner_processErrorReceived
           \<and> c \<noteq> (ValgrindRunner_processOutputReceived, Slot_receiveProcessOutput)
           \<and> c \<noteq> (ValgrindRunner_finished, Slot_runnerFinished))
         = (fst c = ValgrindRunner_processErrorReceived)"
    by auto
  then show ?thesis by (simp add: runnerFinished_fields conj_commute)
qed

subsection \<open>The claims\<close>

text \<open>
  C1. Whatever the self-modifying-code detection setting is, \<open>genericToolArguments\<close>
  returns the single argument \<^verbatim>\<open>--smc-check=\<close> followed by the token of the fixed
  table: none for DetectSmcNo, all for DetectSmcEverywhere, all-non-file for
  DetectSmcEverywhereButFile, stack for DetectSmcStackOnly and stack for every other
  value.
\<close>

theorem genericToolArguments_mapping:
  "genericToolArguments (this\<lparr>m_settings := Some (settings\<lparr>selfModifyingCodeDetection := DetectSmcNo\<rparr>)\<rparr>)
     = [''--smc-check=none'']
   \<and> genericToolArguments (this\<lparr>m_settings := Some (settings\<lparr>selfModifyingCodeDetection := DetectSmcEverywhere\<rparr>)\<rparr>)
     = [''--smc-check=all'']
   \<and> genericToolArguments (this\<lparr>m_settings := Some (settings\<lparr>selfModifyingCodeDetection := DetectSmcEverywhereButFile\<rparr>)\<rparr>)
     = [''--smc-check=all-non-file'']
   \<and> genericToolArguments (this\<lparr>m_settings := Some (settings\<lparr>selfModifyingCodeDetection := DetectSmcStackOnly\<rparr>)\<rparr>)
     = [''--smc-check=stack'']
   \<and> genericToolArguments (this\<lparr>m_settings := Some (settings\<lparr>selfModifyingCodeDetection := DetectSmcOther n\<rparr>)\<rparr>)
     = [''--smc-check=stack'']"
  by (simp add: genericToolArguments_def)

text \<open>
  C4. A process error that is not failed-to-start, arriving while the stopping flag is
  unset, appends the generic message \<^verbatim>\<open>** message **\<close> with the error format; the raw
  diagnostic text of the callback stands in it unchanged.
\<close>

theorem generic_error_wraps_diagnostic:
  "\<not> m_isStopping this \<Longrightarrow> error \<noteq> FailedToStart \<Longrightarrow>
   messagesAfter (receiveProcessError message error this) =
     Inr (messages this @ [(''** '' @ message @ '' **\<newline>'', ErrorMessageFormat)])
   \<and> sublist message (''** '' @ message @ '' **\<newline>'')"
proof -
  assume "\<not> m_isStopping this" and "error \<noteq> FailedToStart"
  then have first: "messagesAfter (receiveProcessError message error this) =
     Inr (messages this @ [(''** '' @ message @ '' **\<newline>'', ErrorMessageFormat)])"
    by (simp add: receiveProcessError_generic)
  have second: "sublist message (''** '' @ message @ '' **\<newline>'')"
    by (rule sublist_appendI)
  from first second show ?thesis by (rule conjI)
qed

theorem generic_error_wraps_diagnostic_witness:
  "\<not> m_isStopping exampleControl \<and> Crashed \<noteq> FailedToStart
   \<and> messagesAfter (receiveProcessError ''Segmentation fault'' Crashed exampleControl) =
       Inr [(''** Segmentation fault **\<newline>'', ErrorMessageFormat)]"
  using generic_error_wraps_diagnostic [of exampleControl Crashed "''Segmentation fault''"]
  by (simp add: exampleControl_fields)

text \<open>
  C3. On a failed-to-start error, whatever the stopping flag is: with an empty
  configured executable path the message is ``Error: no Valgrind executable set.'',
  with a non-empty one it is ``Error: "path" could not be started: reason'', which
  contains the path and the raw reason.
\<close>

theorem failed_to_start_classification:
  \<open>m_settings this = Some settings \<Longrightarrow>
   messagesAfter (receiveProcessError message FailedToStart (this\<lparr>m_isStopping := stopping\<rparr>)) =
     Inr (messages this @
       [(if valgrindExecutable settings = [] then ''Error: no Valgrind executable set.\<newline>''
         else ''Error: "'' @ valgrindExecutable settings @ ''" could not be started: '' @ message @ ''\<newline>'',
         ErrorMessageFormat)])
   \<and> sublist (valgrindExecutable settings)
        (''Error: "'' @ valgrindExecutable settings @ ''" could not be started: '' @ message @ ''\<newline>'')
   \<and> sublist message
        (''Error: "'' @ valgrindExecutable settings @ ''" could not be started: '' @ message @ ''\<newline>'')\<close>
proof -
  assume "m_settings this = Some settings"
  then have "m_settings (this\<lparr>m_isStopping := stopping\<rparr>) = Some settings" by simp
  from receiveProcessError_FailedToStart [OF this, of message]
  have first: \<open>messagesAfter (receiveProcessError message FailedToStart (this\<lparr>m_isStopping := stopping\<rparr>)) =
     Inr (messages this @
       [(if valgrindExecutable settings = [] then ''Error: no Valgrind executable set.\<newline>''
         else ''Error: "'' @ valgrindExecutable settings @ ''" could not be started: '' @ message @ ''\<newline>'',
         ErrorMessageFormat)])\<close> by simp
  have second: \<open>sublist (valgrindExecutable settings)
        (''Error: "'' @ valgrindExecutable settings @ ''" could not be started: '' @ message @ ''\<newline>'')\<close>
    by (rule sublist_appendI)
  have \<open>sublist message ((''Error: "'' @ valgrindExecutable settings @ ''" could not be started: '') @ message @ ''\<newline>'')\<close>
    by (rule sublist_appendI)
  then have third: \<open>sublist message
        (''Error: "'' @ valgrindExecutable settings @ ''" could not be started: '' @ message @ ''\<newline>'')\<close>
    by simp
  from first second third show ?thesis by blast
qed

theorem failed_to_start_classification_witness:
  \<open>m_settings exampleControl = Some exampleSettings
   \<and> messagesAfter (receiveProcessError ''No such file or directory'' FailedToStart
         (exampleControl\<lparr>m_isStopping := True\<rparr>)) =
       Inr [(''Error: "valgrind" could not be started: No such file or directory\<newline>'', ErrorMessageFormat)]
   \<and> m_settings (exampleControl\<lparr>m_settings := Some (exampleSettings\<lparr>valgrindExecutable := []\<rparr>)\<rparr>)
       = Some (exampleSettings\<lparr>valgrindExecutable := []\<rparr>)
   \<and> messagesAfter (receiveProcessError ''No such file or directory'' FailedToStart
         (exampleControl\<lparr>m_settings := Some (exampleSettings\<lparr>valgrindExecutable := []\<rparr>), m_isStopping := False\<rparr>)) =
       Inr [(''Error: no Valgrind executable set.\<newline>'', ErrorMessageFormat)]\<close>
  using failed_to_start_classification [of exampleControl exampleSettings "''No such file or directory''" True]
    failed_to_start_classification [of "exampleControl\<lparr>m_settings := Some (exampleSettings\<lparr>valgrindExecutable := []\<rparr>)\<rparr>"
       "exampleSettings\<lparr>valgrindExecutable := []\<rparr>" "''No such file or directory''" False]
  by (simp add: exampleControl_fields exampleSettings_def)

text \<open>
  C2. Once \<open>stopEngine\<close> has been called, whatever operations follow, a process error
  of kind crashed appends the benign message ``Process terminated.'' to the sink; that
  message is not the generic one that wraps the raw diagnostic.
\<close>

theorem crash_after_stop_is_benign:
  "run calls (stopEngine this) = Inr this' \<Longrightarrow>
   messagesAfter (receiveProcessError message Crashed this') =
     Inr (messages this' @ [(''Process terminated.\<newline>'', ErrorMessageFormat)])
   \<and> ''Process terminated.\<newline>'' \<noteq> arg ''** %1 **\<newline>'' [message]"
proof -
  assume "run calls (stopEngine this) = Inr this'"
  from m_isStopping_run [OF this] have "m_isStopping this'"
    by (simp add: m_isStopping_stopEngine)
  then have first: "messagesAfter (receiveProcessError message Crashed this') =
     Inr (messages this' @ [(''Process terminated.\<newline>'', ErrorMessageFormat)])"
    by (simp add: receiveProcessError_stopping_Crashed messagesAfter_def appendMessage_def)
  have second: "''Process terminated.\<newline>'' \<noteq> arg ''** %1 **\<newline>'' [message]"
    by (simp add: isPlaceMarker_def markerIndex_def)
  from first second show ?thesis by (rule conjI)
qed

theorem crash_after_stop_is_benign_witness:
  "run [Call_receiveProcessOutput ''==1== Memcheck'' NormalMessageFormat] (stopEngine exampleControl)
     = Inr (receiveProcessOutput ''==1== Memcheck'' NormalMessageFormat (stopEngine exampleControl))
   \<and> messagesAfter (receiveProcessError ''Killed'' Crashed
         (receiveProcessOutput ''==1== Memcheck'' NormalMessageFormat (stopEngine exampleControl))) =
       Inr [(''==1== Memcheck'', NormalMessageFormat), (''Process terminated.\<newline>'', ErrorMessageFormat)]"
  using crash_after_stop_is_benign
    [of "[Call_receiveProcessOutput ''==1== Memcheck'' NormalMessageFormat]" exampleControl
        "receiveProcessOutput ''==1== Memcheck'' NormalMessageFormat (stopEngine exampleControl)" "''Killed''"]
  by (simp add: receiveProcessOutput_fields stopEngine_fields exampleControl_fields)

text \<open>
  C7, as the claim states it, fails: after \<open>stopEngine\<close> a crash appends ``Process
  terminated.'' with \<open>ErrorMessageFormat\<close>, not with \<open>NormalMessageFormat\<close>.
\<close>

theorem crash_after_stop_format_counterexample:
  "messagesAfter (receiveProcessError ''Killed'' Crashed (stopEngine exampleControl)) =
     Inr [(''Process terminated.\<newline>'', ErrorMessageFormat)]
   \<and> messagesAfter (receiveProcessError ''Killed'' Crashed (stopEngine exampleControl)) \<noteq>
     Inr [(''Process terminated.\<newline>'', NormalMessageFormat)]"
  by (simp add: receiveProcessError_stopping_Crashed stopEngine_fields exampleControl_fields
        messagesAfter_def appendMessage_def)

text \<open>
  C7, amended. Every message that \<open>receiveProcessError\<close> appends carries the error
  format tag; for a crash while the stopping flag is set the message is ``Process
  terminated.'', still with the error format tag, and the output pane is not
  activated: the crash after a stop differs from other errors in its wording and in
  the missing pane activation, not in its format tag.
\<close>

theorem receiveProcessError_error_format:
  "receiveProcessError message error this = Inr this' \<Longrightarrow>
   (\<exists>text. messages this' = messages this @ [(text, ErrorMessageFormat)])
   \<and> (m_isStopping this \<and> error = Crashed \<longrightarrow>
        messages this' = messages this @ [(''Process terminated.\<newline>'', ErrorMessageFormat)]
        \<and> popups this' = popups this)"
proof -
  assume a: "receiveProcessError message error this = Inr this'"
  have first: "\<exists>text. messages this' = messages this @ [(text, ErrorMessageFormat)]"
    using a by (rule receiveProcessError_format)
  have second: "m_isStopping this \<and> error = Crashed \<longrightarrow>
        messages this' = messages this @ [(''Process terminated.\<newline>'', ErrorMessageFormat)]
        \<and> popups this' = popups this"
  proof
    assume b: "m_isStopping this \<and> error = Crashed"
    with a receiveProcessError_stopping_Crashed [of this message]
    have "this' = appendMessage ''Process terminated.\<newline>'' ErrorMessageFormat this" by simp
    then show "messages this' = messages this @ [(''Process terminated.\<newline>'', ErrorMessageFormat)]
        \<and> popups this' = popups this"
      by (simp add: appendMessage_def)
  qed
  from first second show ?thesis by (rule conjI)
qed

theorem receiveProcessError_error_format_witness:
  "receiveProcessError ''Killed'' Crashed (stopEngine exampleControl)
     = Inr (appendMessage ''Process terminated.\<newline>'' ErrorMessageFormat (stopEngine exampleControl))
   \<and> messages (appendMessage ''Process terminated.\<newline>'' ErrorMessageFormat (stopEngine exampleControl))
     = [(''Process terminated.\<newline>'', ErrorMessageFormat)]
   \<and> popups (appendMessage ''Process terminated.\<newline>'' ErrorMessageFormat (stopEngine exampleControl)) = []"
  using receiveProcessError_error_format
    [of "''Killed''" Crashed "stopEngine exampleControl"
        "appendMessage ''Process terminated.\<newline>'' ErrorMessageFormat (stopEngine exampleControl)"]
  by (simp add: receiveProcessError_stopping_Crashed stopEngine_fields exampleControl_fields)

text \<open>
  C8, as the claim states it, fails: with the stopping flag unset and no object named
  AppOutputPane in the plugin manager's pool, no popup is requested.
\<close>

theorem pane_activation_counterexample:
  "m_isStopping (exampleControl\<lparr>pluginObjects := []\<rparr>) = False
   \<and> popupsAfter (receiveProcessError ''Segmentation fault'' Crashed
        (exampleControl\<lparr>pluginObjects := []\<rparr>)) = Inr []"
  by (simp add: receiveProcessError_def popupsAfter_def appendMessage_def getObjectByName_def
        exampleControl_fields)

text \<open>
  C8, amended. After classifying a process error, \<open>receiveProcessError\<close> requests a
  popup of the output pane with the no-mode-switch option if and only if the stopping
  flag is not set and the plugin manager has an object named AppOutputPane that is an
  output pane; when the stopping flag is set, no pane activation occurs.
\<close>

theorem pane_activation:
  "receiveProcessError message error this = Inr this' \<Longrightarrow>
   popups this' =
     (if \<not> m_isStopping this \<and> getObjectByName ''AppOutputPane'' this = Some OutputPaneObject
      then popups this @ [NoModeSwitch] else popups this)"
  by (rule receiveProcessError_popups)

theorem pane_activation_witness:
  "receiveProcessError ''Segmentation fault'' Crashed exampleControl
     = Inr (appendMessage ''** Segmentation fault **\<newline>'' ErrorMessageFormat exampleControl
              \<lparr>popups := [NoModeSwitch]\<rparr>)
   \<and> popups (appendMessage ''** Segmentation fault **\<newline>'' ErrorMessageFormat exampleControl
              \<lparr>popups := [NoModeSwitch]\<rparr>) = [NoModeSwitch]
   \<and> receiveProcessError ''Killed'' Crashed (stopEngine exampleControl)
     = Inr (appendMessage ''Process terminated.\<newline>'' ErrorMessageFormat (stopEngine exampleControl))
   \<and> popups (appendMessage ''Process terminated.\<newline>'' ErrorMessageFormat (stopEngine exampleControl)) = []"
  using pane_activation [of "''Segmentation fault''" Crashed exampleControl
          "appendMessage ''** Segmentation fault **\<newline>'' ErrorMessageFormat exampleControl
              \<lparr>popups := [NoModeSwitch]\<rparr>"]
        pane_activation [of "''Killed''" Crashed "stopEngine exampleControl"
          "appendMessage ''Process terminated.\<newline>'' ErrorMessageFormat (stopEngine exampleControl)"]
  by (simp add: receiveProcessError_def appendMessage_def getObjectByName_def tr_def
        isPlaceMarker_def markerIndex_def exampleControl_fields stopEngine_fields)

text \<open>
  C5. When the runner's \<open>start()\<close> returns false, \<open>startEngine\<close> returns false and
  has called \<open>cancel()\<close> on the progress interface; when it returns true,
  \<open>startEngine\<close> returns true and the progress interface is only reported started.
\<close>

theorem startEngine_spawn_result:
  "m_settings this = Some settings \<Longrightarrow>
   returned (startEngine False this) = Inr False
   \<and> progressAfter (controlAfter (startEngine False this)) = Inr (m_progress this @ [ReportStarted, Cancel])
   \<and> returned (startEngine True this) = Inr True
   \<and> progressAfter (controlAfter (startEngine True this)) = Inr (m_progress this @ [ReportStarted])"
  by (simp add: startEngine_returned startEngine_progress)

theorem startEngine_spawn_result_witness:
  "m_settings exampleControl = Some exampleSettings
   \<and> returned (startEngine False exampleControl) = Inr False
   \<and> progressAfter (controlAfter (startEngine False exampleControl)) = Inr [ReportStarted, Cancel]
   \<and> returned (startEngine True exampleControl) = Inr True
   \<and> progressAfter (controlAfter (startEngine True exampleControl)) = Inr [ReportStarted]"
  using startEngine_spawn_result [of exampleControl exampleSettings]
  by (simp add: exampleControl_fields)

text \<open>
  C9. The stopping flag is false in a newly constructed run control. After any
  sequence of operations (member function calls and delivered signals) it is set
  exactly if it was set before or \<open>stopEngine\<close> is among the operations: only
  \<open>stopEngine\<close> sets it and nothing resets it. So after \<open>stopEngine\<close>, whatever
  operations follow, the flag is set and the error classification sees it: a crash
  is reported as ``Process terminated.'' and the output pane is not activated.
  A call of \<^verbatim>\<open>AnalyzerManager::stopTool()\<close> is an outward call here; a call of
  \<open>stopEngine\<close> that the host makes in answer is an operation of its own.
\<close>

theorem stopping_flag_set_once:
  "m_isStopping (ValgrindRunControl base runConfiguration globalSettings) = False
   \<and> (run calls this = Inr this' \<longrightarrow>
        m_isStopping this' = (m_isStopping this \<or> Call_stopEngine \<in> set calls))
   \<and> (run calls (stopEngine this) = Inr this' \<longrightarrow>
        m_isStopping this'
        \<and> messagesAfter (receiveProcessError message Crashed this') =
            Inr (messages this' @ [(''Process terminated.\<newline>'', ErrorMessageFormat)])
        \<and> popupsAfter (receiveProcessError message Crashed this') = Inr (popups this'))"
proof -
  have second: "run calls this = Inr this' \<longrightarrow>
        m_isStopping this' = (m_isStopping this \<or> Call_stopEngine \<in> set calls)"
    by (simp add: m_isStopping_run)
  have third: "run calls (stopEngine this) = Inr this' \<longrightarrow>
        m_isStopping this'
        \<and> messagesAfter (receiveProcessError message Crashed this') =
            Inr (messages this' @ [(''Process terminated.\<newline>'', ErrorMessageFormat)])
        \<and> popupsAfter (receiveProcessError message Crashed this') = Inr (popups this')"
  proof
    assume "run calls (stopEngine this) = Inr this'"
    from m_isStopping_run [OF this] have "m_isStopping this'"
      by (simp add: m_isStopping_stopEngine)
    then show "m_isStopping this'
        \<and> messagesAfter (receiveProcessError message Crashed this') =
            Inr (messages this' @ [(''Process terminated.\<newline>'', ErrorMessageFormat)])
        \<and> popupsAfter (receiveProcessError message Crashed this') = Inr (popups this')"
      by (simp add: receiveProcessError_stopping_Crashed messagesAfter_def popupsAfter_def
            appendMessage_def)
  qed
  from m_isStopping_ValgrindRunControl second third show ?thesis by blast
qed

theorem stopping_flag_set_once_witness:
  "m_isStopping (ValgrindRunControl exampleBase None (Some exampleSettings)) = False
   \<and> run [Call_receiveProcessOutput ''==1== Memcheck'' NormalMessageFormat] (stopEngine exampleControl)
       = Inr (receiveProcessOutput ''==1== Memcheck'' NormalMessageFormat (stopEngine exampleControl))
   \<and> m_isStopping (receiveProcessOutput ''==1== Memcheck'' NormalMessageFormat (stopEngine exampleControl))
   \<and> popupsAfter (receiveProcessError ''Killed'' Crashed
         (receiveProcessOutput ''==1== Memcheck'' NormalMessageFormat (stopEngine exampleControl))) = Inr []"
  using stopping_flag_set_once
    [of exampleBase None "Some exampleSettings"
        "[Call_receiveProcessOutput ''==1== Memcheck'' NormalMessageFormat]" exampleControl
        "receiveProcessOutput ''==1== Memcheck'' NormalMessageFormat (stopEngine exampleControl)" "''Killed''"]
  by (simp add: receiveProcessOutput_fields stopEngine_fields exampleControl_fields)

text \<open>
  C6, as the claim states it, fails: \<open>runnerFinished\<close> has no guard of its own. After
  the finished signal has fired it once, a second invocation of the function appends
  ``Analyzing finished.'' again and calls \<open>reportFinished()\<close> again.
\<close>

theorem runnerFinished_twice_counterexample:
  "messagesAfter (run [Call_startEngine True, Signal Emit_finished, Call_runnerFinished] exampleControl) =
     Inr [(''Analyzing finished.\<newline>'', NormalMessageFormat),
          (''Analyzing finished.\<newline>'', NormalMessageFormat)]
   \<and> progressAfter (run [Call_startEngine True, Signal Emit_finished, Call_runnerFinished] exampleControl) =
     Inr [ReportStarted, ReportFinished, ReportFinished]"
  by (simp add: exampleControl_started messagesAfter_def progressAfter_def runnerFinished_fields
        startEngine_fields [of exampleControl exampleSettings] exampleControl_fields)

text \<open>
  C6, amended. While the runner's finished signal is connected to \<open>runnerFinished\<close>
  (and to nothing else), the first emission of the signal runs \<open>runnerFinished\<close> once,
  also when the connection was made several times; \<open>runnerFinished\<close> removes the
  connection, so a second emission of the signal does not invoke it: the message
  ``Analyzing finished.'' is appended once and \<open>reportFinished()\<close> is called once.
\<close>

theorem finished_signal_delivered_once:
  assumes "set (filter (\<lambda>c. fst c = ValgrindRunner_finished) (connections this))
             = {(ValgrindRunner_finished, Slot_runnerFinished)}"
  shows "run [Signal Emit_finished] this = Inr (runnerFinished this)
   \<and> run [Signal Emit_finished, Signal Emit_finished] this = Inr (runnerFinished this)
   \<and> messages (runnerFinished this) =
        messages this @ [(''Analyzing finished.\<newline>'', NormalMessageFormat)]
   \<and> m_progress (runnerFinished this) = m_progress this @ [ReportFinished]"
proof -
  from assms have "set (filter (\<lambda>c. fst c = ValgrindRunner_finished) (connections this))
             \<subseteq> {(ValgrindRunner_finished, Slot_runnerFinished)}" by simp
  from emit_finished_first [OF assms] emit_finished_second [OF this]
  show ?thesis by (simp add: runnerFinished_fields)
qed

theorem finished_signal_delivered_once_witness:
  "set (filter (\<lambda>c. fst c = ValgrindRunner_finished)
          (connections (snd (projr (startEngine True exampleControl)))))
     = {(ValgrindRunner_finished, Slot_runnerFinished)}
   \<and> messagesAfter (run [Signal Emit_finished, Signal Emit_finished]
          (snd (projr (startEngine True exampleControl)))) =
       Inr [(''Analyzing finished.\<newline>'', NormalMessageFormat)]
   \<and> progressAfter (run [Signal Emit_finished, Signal Emit_finished]
          (snd (projr (startEngine True exampleControl)))) =
       Inr [ReportStarted, ReportFinished]"
  using finished_signal_delivered_once [of "snd (projr (startEngine True exampleControl))"]
  by (simp add: startEngine_fields [of exampleControl exampleSettings] exampleControl_fields
        messagesAfter_def progressAfter_def)

text \<open>
  C10. \<open>runnerFinished\<close> removes the connections of the runner's output signal to
  \<open>receiveProcessOutput\<close> and of its finished signal to \<open>runnerFinished\<close>, and no
  other: the connection of the error signal to \<open>receiveProcessError\<close> remains. A
  process error that the runner emits after \<open>runnerFinished\<close> has run is delivered to
  \<open>receiveProcessError\<close>, and the messages it appends are those it would have appended
  before.
\<close>

theorem errors_still_classified_after_finish:
  assumes "filter (\<lambda>c. fst c = ValgrindRunner_processErrorReceived) (connections this)
             = [(ValgrindRunner_processErrorReceived, Slot_receiveProcessError)]"
  shows "connections (runnerFinished this) =
           filter (\<lambda>c. c \<noteq> (ValgrindRunner_processOutputReceived, Slot_receiveProcessOutput)
                      \<and> c \<noteq> (ValgrindRunner_finished, Slot_runnerFinished)) (connections this)
   \<and> (ValgrindRunner_processErrorReceived, Slot_receiveProcessError)
        \<in> set (connections (runnerFinished this))
   \<and> emit (Emit_processErrorReceived message error) (runnerFinished this)
        = receiveProcessError message error (runnerFinished this)
   \<and> appendedMessages (runnerFinished this)
          (emit (Emit_processErrorReceived message error) (runnerFinished this))
        = appendedMessages this (emit (Emit_processErrorReceived message error) this)"
proof -
  let ?p = "(ValgrindRunner_processErrorReceived, Slot_receiveProcessError)"
  have after: "filter (\<lambda>c. fst c = ValgrindRunner_processErrorReceived) (connections (runnerFinished this))
                 = [?p]"
    using assms by (simp only: runnerFinished_keeps_error_connections)
  have first: "connections (runnerFinished this) =
           filter (\<lambda>c. c \<noteq> (ValgrindRunner_processOutputReceived, Slot_receiveProcessOutput)
                      \<and> c \<noteq> (ValgrindRunner_finished, Slot_runnerFinished)) (connections this)"
    by (rule runnerFinished_fields)
  have "?p \<in> set (filter (\<lambda>c. fst c = ValgrindRunner_processErrorReceived)
                     (connections (runnerFinished this)))"
    by (simp only: after list.set insertI1)
  then have second: "?p \<in> set (connections (runnerFinished this))" by simp
  have third: "emit (Emit_processErrorReceived message error) (runnerFinished this)
        = receiveProcessError message error (runnerFinished this)"
    using after by (rule emit_processError_once)
  have before: "emit (Emit_processErrorReceived message error) this
        = receiveProcessError message error this"
    using assms by (rule emit_processError_once)
  have fourth: "appendedMessages (runnerFinished this)
          (emit (Emit_processErrorReceived message error) (runnerFinished this))
        = appendedMessages this (emit (Emit_processErrorReceived message error) this)"
    by (simp only: third before receiveProcessError_appended runnerFinished_fields
          m_isStopping_runnerFinished)
  from first second third fourth show ?thesis by blast
qed

theorem errors_still_classified_after_finish_witness:
  "filter (\<lambda>c. fst c = ValgrindRunner_processErrorReceived)
          (connections (snd (projr (startEngine True exampleControl))))
     = [(ValgrindRunner_processErrorReceived, Slot_receiveProcessError)]
   \<and> appendedMessages (runnerFinished (snd (projr (startEngine True exampleControl))))
        (emit (Emit_processErrorReceived ''Segmentation fault'' Crashed)
           (runnerFinished (snd (projr (startEngine True exampleControl)))))
      = Inr [(''** Segmentation fault **\<newline>'', ErrorMessageFormat)]
   \<and> appendedMessages (snd (projr (startEngine True exampleControl)))
        (emit (Emit_processErrorReceived ''Segmentation fault'' Crashed)
           (snd (projr (startEngine True exampleControl))))
      = Inr [(''** Segmentation fault **\<newline>'', ErrorMessageFormat)]"
proof -
  have connected: "filter (\<lambda>c. fst c = ValgrindRunner_processErrorReceived)
          (connections (snd (projr (startEngine True exampleControl))))
     = [(ValgrindRunner_processErrorReceived, Slot_receiveProcessError)]"
    by (simp add: startEngine_fields [of exampleControl exampleSettings] exampleControl_fields)
  have flag: "\<not> m_isStopping (snd (projr (startEngine True exampleControl)))"
    using m_isStopping_startEngine [OF startEngine_Some [of exampleControl exampleSettings True]]
    by (simp add: exampleControl_fields)
  from errors_still_classified_after_finish [OF connected, of "''Segmentation fault''" Crashed]
    connected flag
  show ?thesis
    by (simp add: receiveProcessError_appended emit_processError_once [OF connected]
          m_isStopping_runnerFinished)
qed

end
